theory Spec2Isabelle
  imports Complex_Main "HOL-Library.Multiset"
begin

section \<open>Fleiss' Kappa agreement analysis\<close>

text \<open>
  A shallow embedding of \<^verbatim>\<open>Validation/analyze_fleiss_kappa_agreement.py\<close>: the kappa
  computation, the interpretation of a kappa value, the aggregation of the response table
  into per-question counts and the construction of the one-hot rating matrix.
\<close>

subsection \<open>Double precision values\<close>

text \<open>
  The script computes on numpy \<^verbatim>\<open>float64\<close> values. The model keeps the special values
  of IEEE 754 that decide the control flow of the code (not-a-number, the two infinities,
  the sign of a zero) and takes every finite value as an exact real number: rounding,
  overflow and underflow of finite results are not modelled. \<open>Fin 0\<close> is the positive
  zero, \<open>NZero\<close> the negative one. Division follows numpy's default error state, which
  warns and returns an infinity or not-a-number where the divisor is zero; it never raises.
\<close>

datatype float64 = Fin real | NZero | PInf | NInf | NaN

fun sign_bit :: "float64 \<Rightarrow> bool" where
  "sign_bit (Fin r) = (r < 0)"
| "sign_bit NZero = True"
| "sign_bit PInf = False"
| "sign_bit NInf = True"
| "sign_bit NaN = False"

fun is_zero :: "float64 \<Rightarrow> bool" where
  "is_zero (Fin r) = (r = 0)"
| "is_zero NZero = True"
| "is_zero _ = False"

fun is_inf :: "float64 \<Rightarrow> bool" where
  "is_inf PInf = True"
| "is_inf NInf = True"
| "is_inf _ = False"

fun mag :: "float64 \<Rightarrow> real" where
  "mag (Fin r) = r"
| "mag _ = 0"

definition signed_inf :: "bool \<Rightarrow> float64" where
  "signed_inf neg = (if neg then NInf else PInf)"

definition signed_zero :: "bool \<Rightarrow> float64" where
  "signed_zero neg = (if neg then NZero else Fin 0)"

definition isnan :: "float64 \<Rightarrow> bool" where
  "isnan x = (x = NaN)"

definition fmul :: "float64 \<Rightarrow> float64 \<Rightarrow> float64" where
  "fmul x y =
     (if isnan x \<or> isnan y then NaN
      else if (is_inf x \<and> is_zero y) \<or> (is_zero x \<and> is_inf y) then NaN
      else if is_inf x \<or> is_inf y then signed_inf (sign_bit x \<noteq> sign_bit y)
      else if mag x * mag y = 0 then signed_zero (sign_bit x \<noteq> sign_bit y)
      else Fin (mag x * mag y))"

definition fdiv :: "float64 \<Rightarrow> float64 \<Rightarrow> float64" where
  "fdiv x y =
     (if isnan x \<or> isnan y then NaN
      else if (is_inf x \<and> is_inf y) \<or> (is_zero x \<and> is_zero y) then NaN
      else if is_inf x \<or> is_zero y then signed_inf (sign_bit x \<noteq> sign_bit y)
      else if is_inf y \<or> is_zero x then signed_zero (sign_bit x \<noteq> sign_bit y)
      else Fin (mag x / mag y))"

definition fsub :: "float64 \<Rightarrow> float64 \<Rightarrow> float64" where
  "fsub x y =
     (if isnan x \<or> isnan y then NaN
      else if is_inf x then (if is_inf y \<and> sign_bit x = sign_bit y then NaN else x)
      else if is_inf y then signed_inf (\<not> sign_bit y)
      else if mag x - mag y = 0 then signed_zero (x = NZero \<and> y = Fin 0)
      else Fin (mag x - mag y))"

text \<open>Comparisons: every comparison with not-a-number is false, the two zeros are equal.\<close>

fun feq :: "float64 \<Rightarrow> float64 \<Rightarrow> bool" where
  "feq NaN _ = False"
| "feq _ NaN = False"
| "feq PInf y = (y = PInf)"
| "feq NInf y = (y = NInf)"
| "feq _ PInf = False"
| "feq _ NInf = False"
| "feq x y = (mag x = mag y)"

fun fge :: "float64 \<Rightarrow> float64 \<Rightarrow> bool" where
  "fge NaN _ = False"
| "fge _ NaN = False"
| "fge PInf _ = True"
| "fge _ NInf = True"
| "fge NInf _ = False"
| "fge _ PInf = False"
| "fge x y = (mag x \<ge> mag y)"

subsection \<open>Arrays\<close>

text \<open>
  A two-dimensional \<^verbatim>\<open>float64\<close> array: its number of columns and its rows. The number
  of columns is kept apart from the rows, since an array of shape \<open>(0, 3)\<close> has three
  columns and no row. The cells are finite numbers. An array is rectangular.
\<close>

record ndarray =
  ncols :: nat
  rows :: "real list list"

definition rectangular :: "ndarray \<Rightarrow> bool" where
  "rectangular M = list_all (\<lambda>r. length r = ncols M) (rows M)"


definition shape0 :: "ndarray \<Rightarrow> nat" where
  "shape0 M = length (rows M)"

definition shape1 :: "ndarray \<Rightarrow> nat" where
  "shape1 M = ncols M"

text \<open>\<^verbatim>\<open>data_matrix.sum().sum()\<close>: the sum of all cells.\<close>

definition total_sum :: "ndarray \<Rightarrow> real" where
  "total_sum M = sum_list (map sum_list (rows M))"

text \<open>\<^verbatim>\<open>(data_matrix ** 2).sum().sum()\<close>: the sum of the squares of all cells.\<close>

definition total_sum_sq :: "ndarray \<Rightarrow> real" where
  "total_sum_sq M = sum_list (map (\<lambda>r. sum_list (map (\<lambda>x. x ^ 2) r)) (rows M))"

text \<open>\<^verbatim>\<open>data_matrix.sum(axis=0)\<close>: one sum per column.\<close>

definition col_sums :: "ndarray \<Rightarrow> real list" where
  "col_sums M = map (\<lambda>j. sum_list (map (\<lambda>r. r ! j) (rows M))) [0..<ncols M]"

subsection \<open>The kappa computation\<close>

text \<open>
  The observed agreement of line 28, \<^verbatim>\<open>P = (data_matrix ** 2).sum().sum() / (N * (n - 1))\<close>,
  and the expected agreement of line 33, \<^verbatim>\<open>Pe = (col_sums ** 2).sum() / (N ** 2)\<close>.
\<close>

definition observed_P :: "ndarray \<Rightarrow> float64" where
  "observed_P M =
     fdiv (Fin (total_sum_sq M))
          (fmul (Fin (total_sum M)) (Fin (of_int (int (shape0 M) - 1))))"

definition expected_Pe :: "ndarray \<Rightarrow> float64" where
  "expected_Pe M =
     fdiv (Fin (sum_list (map (\<lambda>c. c ^ 2) (col_sums M))))
          (fmul (Fin (total_sum M)) (Fin (total_sum M)))"

definition calculate_fleiss_kappa :: "ndarray \<Rightarrow> float64" where
  "calculate_fleiss_kappa data_matrix =
     (if shape0 data_matrix = 0 \<or> shape1 data_matrix = 0 then NaN
      else let N = Fin (total_sum data_matrix) in
        if feq N (Fin 0) then NaN
        else let P = observed_P data_matrix;
                 Pe = expected_Pe data_matrix
             in if feq Pe (Fin 1) then NaN
                else fdiv (fsub P Pe) (fsub (Fin 1) Pe))"

subsection \<open>The interpretation of a kappa value\<close>

definition interpret_fleiss_kappa :: "float64 \<Rightarrow> string" where
  "interpret_fleiss_kappa kappa =
     (if isnan kappa then ''No data''
      else if fge kappa (Fin 0.81) then ''Almost perfect agreement''
      else if fge kappa (Fin 0.61) then ''Substantial agreement''
      else if fge kappa (Fin 0.41) then ''Moderate agreement''
      else if fge kappa (Fin 0.21) then ''Fair agreement''
      else if fge kappa (Fin 0.01) then ''Slight agreement''
      else ''Poor agreement'')"

subsection \<open>The aggregation of the response table\<close>

text \<open>
  A row of the input table, with its columns \<^verbatim>\<open>Question\<close>, \<^verbatim>\<open>Categorical Answers\<close>
  and \<^verbatim>\<open>Total\<close>, and a row of the table that \<^verbatim>\<open>prepare_data_for_fleiss_kappa\<close> returns.
\<close>

record ResponseRecord =
  In_Question :: string
  Categorical_Answers :: string
  Total :: int

record QuestionSummary =
  Question :: string
  Category_A :: int
  Category_B :: int
  Category_C :: int
  Total_Responses :: int

text \<open>
  \<^verbatim>\<open>Series.unique()\<close> of pandas scans the column with a hash table of the values seen so
  far and returns the distinct values in their order of appearance.
\<close>

fun unique_from :: "'a list \<Rightarrow> 'a list \<Rightarrow> 'a list" where
  "unique_from seen [] = []"
| "unique_from seen (x # xs) =
     (if x \<in> set seen then unique_from seen xs else x # unique_from (x # seen) xs)"

definition unique :: "'a list \<Rightarrow> 'a list" where
  "unique xs = unique_from [] xs"

text \<open>
  Lines 79 to 81: the \<^verbatim>\<open>Total\<close> of the first row of the question's rows that has the
  category label, \<^verbatim>\<open>iloc[0]\<close>, when there is such a row, and 0 otherwise.
\<close>

definition category_count :: "ResponseRecord list \<Rightarrow> string \<Rightarrow> int" where
  "category_count question_data label =
     (let sel = filter (\<lambda>r. Categorical_Answers r = label) question_data
      in if length sel > 0 then Total (sel ! 0) else 0)"

definition summarise :: "ResponseRecord list \<Rightarrow> string \<Rightarrow> QuestionSummary" where
  "summarise df question =
     (let question_data = filter (\<lambda>r. In_Question r = question) df;
          a_count = category_count question_data ''A'';
          b_count = category_count question_data ''B'';
          c_count = category_count question_data ''C''
      in \<lparr>Question = question, Category_A = a_count, Category_B = b_count,
          Category_C = c_count, Total_Responses = a_count + b_count + c_count\<rparr>)"

definition prepare_data_for_fleiss_kappa :: "ResponseRecord list \<Rightarrow> QuestionSummary list" where
  "prepare_data_for_fleiss_kappa df = map (summarise df) (unique (map In_Question df))"

subsection \<open>The rating matrix and the analysis of a question\<close>

datatype py_error = ValueError | IndexError

text \<open>\<^verbatim>\<open>np.zeros((total_responses, 3))\<close> raises on a negative dimension.\<close>

definition np_zeros :: "int \<Rightarrow> nat \<Rightarrow> py_error + ndarray" where
  "np_zeros n k =
     (if n < 0 then Inl ValueError
      else Inr \<lparr>ncols = k, rows = replicate (nat n) (replicate k 0)\<rparr>)"

text \<open>
  \<^verbatim>\<open>data_matrix[i, j] = v\<close> with a row index \<open>i\<close> that is not negative: an index out
  of bounds raises.
\<close>

definition set_cell :: "ndarray \<Rightarrow> nat \<Rightarrow> nat \<Rightarrow> real \<Rightarrow> py_error + ndarray" where
  "set_cell M i j v =
     (if i < length (rows M) \<and> j < ncols M
      then Inr (M\<lparr>rows := (rows M)[i := (rows M ! i)[j := v]]\<rparr>)
      else Inl IndexError)"

text \<open>
  One of the three loops of lines 121 to 133, with the number of iterations left, the
  column it fills, and the state it updates: the matrix and \<^verbatim>\<open>current_row\<close>.
\<close>

fun fill :: "nat \<Rightarrow> nat \<Rightarrow> ndarray \<times> nat \<Rightarrow> py_error + ndarray \<times> nat" where
  "fill 0 col st = Inr st"
| "fill (Suc m) col (data_matrix, current_row) =
     (case set_cell data_matrix current_row col 1 of
        Inl e \<Rightarrow> Inl e
      | Inr data_matrix' \<Rightarrow> fill m col (data_matrix', current_row + 1))"

text \<open>
  Lines 115 to 133. \<^verbatim>\<open>range(int(a_count))\<close> is empty for a negative count, so a loop
  runs \<open>nat a_count\<close> times.
\<close>

definition build_matrix :: "int \<Rightarrow> int \<Rightarrow> int \<Rightarrow> int \<Rightarrow> py_error + ndarray" where
  "build_matrix total_responses a_count b_count c_count =
     (case np_zeros total_responses 3 of
        Inl e \<Rightarrow> Inl e
      | Inr data_matrix \<Rightarrow>
          (case fill (nat a_count) 0 (data_matrix, 0) of
             Inl e \<Rightarrow> Inl e
           | Inr st1 \<Rightarrow>
               (case fill (nat b_count) 1 st1 of
                  Inl e \<Rightarrow> Inl e
                | Inr st2 \<Rightarrow>
                    (case fill (nat c_count) 2 st2 of
                       Inl e \<Rightarrow> Inl e
                     | Inr st3 \<Rightarrow> Inr (fst st3)))))"

record KappaResult =
  Out_Question :: string
  Fleiss_Kappa :: float64
  N_Responses :: int
  Answer_A_Count :: int
  Answer_B_Count :: int
  Answer_C_Count :: int
  Agreement_Level :: string

text \<open>The body of the loop of \<^verbatim>\<open>analyze_agreement_by_question\<close>, for one row.\<close>

definition analyze_row :: "QuestionSummary \<Rightarrow> py_error + KappaResult" where
  "analyze_row row =
     (case build_matrix (Total_Responses row) (Category_A row) (Category_B row)
             (Category_C row) of
        Inl e \<Rightarrow> Inl e
      | Inr data_matrix \<Rightarrow>
          (let kappa = calculate_fleiss_kappa data_matrix
           in Inr \<lparr>Out_Question = Question row, Fleiss_Kappa = kappa,
                   N_Responses = Total_Responses row,
                   Answer_A_Count = Category_A row,
                   Answer_B_Count = Category_B row,
                   Answer_C_Count = Category_C row,
                   Agreement_Level = interpret_fleiss_kappa kappa\<rparr>))"

fun analyze_agreement_by_question :: "QuestionSummary list \<Rightarrow> py_error + KappaResult list" where
  "analyze_agreement_by_question [] = Inr []"
| "analyze_agreement_by_question (row # fleiss_df) =
     (case analyze_row row of
        Inl e \<Rightarrow> Inl e
      | Inr res \<Rightarrow>
          (case analyze_agreement_by_question fleiss_df of
             Inl e \<Rightarrow> Inl e
           | Inr results \<Rightarrow> Inr (res # results)))"

subsection \<open>Notions used to state the properties\<close>

text \<open>
  The closed form of the matrix that the three loops build: a block of rows for
  category A, then one for B, then one for C. The loops are proved to build it below.
\<close>

definition one_hot_rows :: "nat \<Rightarrow> nat \<Rightarrow> nat \<Rightarrow> real list list" where
  "one_hot_rows a b c = replicate a [1, 0, 0] @ replicate b [0, 1, 0] @ replicate c [0, 0, 1]"


text \<open>
  The \<^verbatim>\<open>Total\<close> of the first row of the table that has the question and the category
  label, and 0 when the table has no such row.
\<close>

definition first_labelled_total :: "ResponseRecord list \<Rightarrow> string \<Rightarrow> string \<Rightarrow> int" where
  "first_labelled_total df q l =
     (case find (\<lambda>r. In_Question r = q \<and> Categorical_Answers r = l) df of
        None \<Rightarrow> 0 | Some r \<Rightarrow> Total r)"


subsection \<open>The aggregation: lemmas\<close>

lemma set_unique_from: "set (unique_from seen xs) = set xs - set seen"
  by (induction xs arbitrary: seen) auto

lemma distinct_unique_from: "distinct (unique_from seen xs)"
  by (induction xs arbitrary: seen) (auto simp: set_unique_from)



lemma set_unique: "set (unique xs) = set xs"
  by (simp add: unique_def set_unique_from)

lemma distinct_unique: "distinct (unique xs)"
  by (simp add: unique_def distinct_unique_from)


lemma first_of_filter:
  "(let sel = filter P xs in if length sel > 0 then f (sel ! 0) else (0::int)) =
     (case find P xs of None \<Rightarrow> 0 | Some r \<Rightarrow> f r)"
  by (induction xs) (auto simp: Let_def)

lemma category_count_find:
  "category_count (filter (\<lambda>r. In_Question r = q) df) l = first_labelled_total df q l"
proof -
  have "filter (\<lambda>r. Categorical_Answers r = l) (filter (\<lambda>r. In_Question r = q) df) =
        filter (\<lambda>r. In_Question r = q \<and> Categorical_Answers r = l) df"
    by (simp add: conj_commute)
  then show ?thesis
    unfolding category_count_def first_labelled_total_def
    using first_of_filter [of "\<lambda>r. In_Question r = q \<and> Categorical_Answers r = l" df Total]
    by simp
qed

lemma summarise_fields:
  "Question (summarise df q) = q"
  "Category_A (summarise df q) = first_labelled_total df q ''A''"
  "Category_B (summarise df q) = first_labelled_total df q ''B''"
  "Category_C (summarise df q) = first_labelled_total df q ''C''"
  "Total_Responses (summarise df q) =
     first_labelled_total df q ''A'' + first_labelled_total df q ''B'' +
     first_labelled_total df q ''C''"
  by (simp_all add: summarise_def Let_def category_count_find)


lemma find_first_match:
  "\<forall>p\<in>set pre. \<not> P p \<Longrightarrow> P r \<Longrightarrow> find P (pre @ r # post) = Some r"
  by (induction pre) auto

lemma filter_eq_distinct:
  "distinct xs \<Longrightarrow> x \<in> set xs \<Longrightarrow> filter (\<lambda>y. y = x) xs = [x]"
  by (induction xs) (auto simp: filter_empty_conv)


subsection \<open>The rating matrix: lemmas\<close>

lemma fill_replicate:
  "col < ncols M \<Longrightarrow> length z = ncols M \<Longrightarrow>
   fill m col (M\<lparr>rows := pre @ replicate (m + k) z\<rparr>, length pre) =
     Inr (M\<lparr>rows := pre @ replicate m (z[col := 1]) @ replicate k z\<rparr>, length pre + m)"
proof (induction m arbitrary: pre)
  case 0
  then show ?case by simp
next
  case (Suc m)
  have "set_cell (M\<lparr>rows := pre @ replicate (Suc m + k) z\<rparr>) (length pre) col 1 =
        Inr (M\<lparr>rows := (pre @ [z[col := 1]]) @ replicate (m + k) z\<rparr>)"
    using Suc.prems by (simp add: set_cell_def list_update_append)
  moreover have "fill m col (M\<lparr>rows := (pre @ [z[col := 1]]) @ replicate (m + k) z\<rparr>, length (pre @ [z[col := 1]]))
     = Inr (M\<lparr>rows := (pre @ [z[col := 1]]) @ replicate m (z[col := 1]) @ replicate k z\<rparr>, length (pre @ [z[col := 1]]) + m)"
    using Suc.prems by (intro Suc.IH) auto
  ultimately show ?case
    by (simp add: replicate_app_Cons_same)
qed

lemma build_matrix_rows:
  assumes "0 \<le> a" "0 \<le> b" "0 \<le> c"
  shows "build_matrix (a + b + c) a b c =
           Inr \<lparr>ncols = 3, rows = one_hot_rows (nat a) (nat b) (nat c)\<rparr>"
proof -
  let ?z = "[0, 0, 0] :: real list"
  let ?M = "\<lparr>ncols = 3, rows = []\<rparr> :: ndarray"
  have n: "nat (a + b + c) = nat a + (nat b + nat c)"
    using assms by simp
  have z: "np_zeros (a + b + c) 3 = Inr (?M\<lparr>rows := [] @ replicate (nat a + (nat b + nat c)) ?z\<rparr>)"
    using assms by (simp add: np_zeros_def n numeral_3_eq_3)
  have f1: "fill (nat a) 0 (?M\<lparr>rows := [] @ replicate (nat a + (nat b + nat c)) ?z\<rparr>, length ([] :: real list list))
      = Inr (?M\<lparr>rows := [] @ replicate (nat a) (?z[0 := 1]) @ replicate (nat b + nat c) ?z\<rparr>, length ([] :: real list list) + nat a)"
    by (rule fill_replicate) simp_all
  let ?p1 = "replicate (nat a) [1, 0, 0 :: real]"
  have f2: "fill (nat b) 1 (?M\<lparr>rows := ?p1 @ replicate (nat b + nat c) ?z\<rparr>, length ?p1)
      = Inr (?M\<lparr>rows := ?p1 @ replicate (nat b) (?z[1 := 1]) @ replicate (nat c) ?z\<rparr>, length ?p1 + nat b)"
    by (rule fill_replicate) simp_all
  let ?p2 = "?p1 @ replicate (nat b) [0, 1, 0 :: real]"
  have f3: "fill (nat c) 2 (?M\<lparr>rows := ?p2 @ replicate (nat c + 0) ?z\<rparr>, length ?p2)
      = Inr (?M\<lparr>rows := ?p2 @ replicate (nat c) (?z[2 := 1]) @ replicate 0 ?z\<rparr>, length ?p2 + nat c)"
    by (rule fill_replicate) simp_all
  show ?thesis
    unfolding build_matrix_def z using f1 f2 f3
    by (simp add: one_hot_rows_def)
qed


subsection \<open>The kappa of a one-hot matrix: lemmas\<close>

lemma upt_0_3: "[0..<3] = [0, 1, 2]"
  by (simp add: upt_rec)

lemma col_sums_3:
  "col_sums \<lparr>ncols = 3, rows = rs\<rparr> =
     [sum_list (map (\<lambda>r. r ! 0) rs), sum_list (map (\<lambda>r. r ! 1) rs),
      sum_list (map (\<lambda>r. r ! 2) rs)]"
  by (simp add: col_sums_def upt_0_3)

lemma one_hot_shape0: "shape0 \<lparr>ncols = 3, rows = one_hot_rows a b c\<rparr> = a + b + c"
  by (simp add: shape0_def one_hot_rows_def)

lemma one_hot_total_sum:
  "total_sum \<lparr>ncols = 3, rows = one_hot_rows a b c\<rparr> = real a + real b + real c"
  by (simp add: total_sum_def one_hot_rows_def sum_list_replicate)


lemma one_hot_col_sums:
  "col_sums \<lparr>ncols = 3, rows = one_hot_rows a b c\<rparr> = [real a, real b, real c]"
  by (simp add: col_sums_3 one_hot_rows_def sum_list_replicate)

lemma one_hot_row_sums: "r \<in> set (one_hot_rows a b c) \<Longrightarrow> sum_list r = 1"
  by (auto simp: one_hot_rows_def)

lemma one_hot_nth:
  "i < a + b + c \<Longrightarrow>
   one_hot_rows a b c ! i =
     (if i < a then [1, 0, 0] else if i < a + b then [0, 1, 0] else [0, 0, 1])"
  by (auto simp: one_hot_rows_def nth_append)



lemma kappa_guards:
  "shape0 M = 0 \<or> shape1 M = 0 \<or> total_sum M = 0 \<or> feq (expected_Pe M) (Fin 1) \<Longrightarrow>
   calculate_fleiss_kappa M = NaN"
  by (auto simp: calculate_fleiss_kappa_def Let_def)

lemma single_row_one_hot_Pe:
  "a + b + c = 1 \<Longrightarrow> expected_Pe \<lparr>ncols = 3, rows = one_hot_rows a b c\<rparr> = Fin 1"
proof -
  assume h: "a + b + c = 1"
  then have "real a + real b + real c = 1"
    by (metis of_nat_1 of_nat_add)
  moreover from h have "(real a)\<^sup>2 + ((real b)\<^sup>2 + (real c)\<^sup>2) = 1"
    by (cases a; cases b; cases c) auto
  ultimately show ?thesis
    by (simp add: expected_Pe_def one_hot_total_sum one_hot_col_sums fdiv_def fmul_def isnan_def)
qed

lemma analyze_row_built:
  "build_matrix (Total_Responses s) (Category_A s) (Category_B s) (Category_C s) = Inr M \<Longrightarrow>
   calculate_fleiss_kappa M = NaN \<Longrightarrow>
   \<exists>res. analyze_row s = Inr res \<and> Fleiss_Kappa res = NaN \<and> Agreement_Level res = ''No data''"
  by (simp add: analyze_row_def interpret_fleiss_kappa_def isnan_def)


subsection \<open>The kappa computation: lemmas\<close>






lemma total_sum_sq_nonneg: "0 \<le> total_sum_sq M"
  unfolding total_sum_sq_def by (rule sum_list_nonneg) (auto intro!: sum_list_nonneg)

lemma sum_list_sq_nonneg: "0 \<le> sum_list (map (\<lambda>c. c ^ 2) (cs :: real list))"
  by (rule sum_list_nonneg) auto














section \<open>Properties\<close>

subsection \<open>Degenerate inputs of the kappa computation\<close>

text \<open>
  C2. The claim is that a matrix with exactly one row makes \<^verbatim>\<open>calculate_fleiss_kappa\<close>
  return the not-a-number value, the division by \<open>N * (n - 1) = 0\<close> being guarded.
  The code has no guard for \<open>n = 1\<close>: on the one-row matrix \<open>[[1, 1, 0]]\<close> the
  observed agreement is \<open>2 / 0\<close>, which is infinite, the expected agreement is
  \<open>1 / 2\<close>, and the function returns positive infinity.
\<close>

theorem single_row_matrix_returns_infinity:
  "shape0 \<lparr>ncols = 3, rows = [[1, 1, 0]]\<rparr> = 1 \<and>
   observed_P \<lparr>ncols = 3, rows = [[1, 1, 0]]\<rparr> = PInf \<and>
   expected_Pe \<lparr>ncols = 3, rows = [[1, 1, 0]]\<rparr> = Fin (1 / 2) \<and>
   calculate_fleiss_kappa \<lparr>ncols = 3, rows = [[1, 1, 0]]\<rparr> = PInf"
  by (simp add: calculate_fleiss_kappa_def shape0_def shape1_def total_sum_def observed_P_def
      expected_Pe_def total_sum_sq_def col_sums_3 fdiv_def fmul_def fsub_def isnan_def
      signed_inf_def signed_zero_def)

text \<open>
  C3. \<^verbatim>\<open>calculate_fleiss_kappa\<close> returns not-a-number whenever the matrix has no row,
  or no column, or its cells sum to 0. Hence a question summary with no response, whose
  matrix has no row and three columns, gets a not-a-number kappa and the label
  "No data".
\<close>

theorem no_data_kappa_undefined:
  "(shape0 M = 0 \<or> shape1 M = 0 \<or> total_sum M = 0 \<longrightarrow> calculate_fleiss_kappa M = NaN) \<and>
   (Total_Responses s = 0 \<and> 0 \<le> Category_A s \<and> 0 \<le> Category_B s \<and> 0 \<le> Category_C s \<and>
    Total_Responses s = Category_A s + Category_B s + Category_C s \<longrightarrow>
      build_matrix (Total_Responses s) (Category_A s) (Category_B s) (Category_C s) =
        Inr \<lparr>ncols = 3, rows = []\<rparr> \<and>
      (\<exists>res. analyze_row s = Inr res \<and> Fleiss_Kappa res = NaN \<and>
             Agreement_Level res = ''No data''))"
proof -
  have g: "shape0 M = 0 \<or> shape1 M = 0 \<or> total_sum M = 0 \<longrightarrow> calculate_fleiss_kappa M = NaN"
    using kappa_guards [of M] by blast
  have p: "build_matrix (Total_Responses s) (Category_A s) (Category_B s) (Category_C s) =
        Inr \<lparr>ncols = 3, rows = []\<rparr> \<and>
      (\<exists>res. analyze_row s = Inr res \<and> Fleiss_Kappa res = NaN \<and>
             Agreement_Level res = ''No data'')"
    if h: "Total_Responses s = 0" "0 \<le> Category_A s" "0 \<le> Category_B s" "0 \<le> Category_C s"
      "Total_Responses s = Category_A s + Category_B s + Category_C s"
  proof -
    from h have z: "Category_A s = 0" "Category_B s = 0" "Category_C s = 0" by simp_all
    have b: "build_matrix (Total_Responses s) (Category_A s) (Category_B s) (Category_C s) =
        Inr \<lparr>ncols = 3, rows = []\<rparr>"
      using build_matrix_rows [of 0 0 0] by (simp add: z h(1) one_hot_rows_def)
    have "calculate_fleiss_kappa \<lparr>ncols = 3, rows = []\<rparr> = NaN"
      by (rule kappa_guards) (simp add: shape0_def)
    with b show ?thesis using analyze_row_built by blast
  qed
  from g p show ?thesis by blast
qed

theorem no_data_kappa_undefined_witness:
  "total_sum \<lparr>ncols = 3, rows = [[0, 0, 0]]\<rparr> = 0 \<and>
   calculate_fleiss_kappa \<lparr>ncols = 3, rows = [[0, 0, 0]]\<rparr> = NaN \<and>
   (\<exists>res. analyze_row \<lparr>Question = ''Q1'', Category_A = 0, Category_B = 0, Category_C = 0,
                        Total_Responses = 0\<rparr> = Inr res \<and>
          Fleiss_Kappa res = NaN \<and> Agreement_Level res = ''No data'')"
  using no_data_kappa_undefined [of "\<lparr>ncols = 3, rows = [[0, 0, 0]]\<rparr>"
      "\<lparr>Question = ''Q1'', Category_A = 0, Category_B = 0, Category_C = 0,
        Total_Responses = 0\<rparr>"]
  by (simp add: total_sum_def)




text \<open>
  C9. A question summary with exactly one response, in any of the three categories,
  gets a not-a-number kappa: its matrix is a single one-hot row, for which the expected
  agreement is 1.
\<close>

theorem single_response_kappa_undefined:
  assumes "Total_Responses s = 1"
    and "(Category_A s, Category_B s, Category_C s) \<in> {(1, 0, 0), (0, 1, 0), (0, 0, 1)}"
  shows "\<exists>res. analyze_row s = Inr res \<and> Fleiss_Kappa res = NaN"
proof -
  let ?a = "Category_A s" and ?b = "Category_B s" and ?c = "Category_C s"
  from assms(2) have nn: "0 \<le> ?a" "0 \<le> ?b" "0 \<le> ?c" and sum: "?a + ?b + ?c = 1"
    by auto
  let ?D = "\<lparr>ncols = 3, rows = one_hot_rows (nat ?a) (nat ?b) (nat ?c)\<rparr>"
  have b: "build_matrix (Total_Responses s) ?a ?b ?c = Inr ?D"
    using build_matrix_rows [OF nn] by (simp add: sum assms(1))
  from nn sum have "nat ?a + nat ?b + nat ?c = 1" by linarith
  then have "expected_Pe ?D = Fin 1" by (rule single_row_one_hot_Pe)
  then have "calculate_fleiss_kappa ?D = NaN"
    using kappa_guards [of ?D] by simp
  with b show ?thesis using analyze_row_built by blast
qed

theorem single_response_kappa_undefined_witness:
  "\<exists>res. analyze_row \<lparr>Question = ''Q7'', Category_A = 0, Category_B = 1, Category_C = 0,
                      Total_Responses = 1\<rparr> = Inr res \<and> Fleiss_Kappa res = NaN"
  using single_response_kappa_undefined [of "\<lparr>Question = ''Q7'', Category_A = 0,
      Category_B = 1, Category_C = 0, Total_Responses = 1\<rparr>"]
  by simp


subsection \<open>The kappa formula\<close>



subsection \<open>Reordering the rows\<close>




subsection \<open>The interpretation\<close>


subsection \<open>The rating matrix\<close>

text \<open>
  C6. For counts \<open>a\<close>, \<open>b\<close>, \<open>c\<close> that are not negative and the total
  \<open>a + b + c\<close>, the construction succeeds and the matrix has \<open>a + b + c\<close> rows and 3
  columns; the rows \<open>0..a-1\<close> are \<open>[1, 0, 0]\<close>, the next \<open>b\<close> rows are
  \<open>[0, 1, 0]\<close> and the last \<open>c\<close> rows are \<open>[0, 0, 1]\<close>. Each row sums to 1,
  the column sums are \<open>(a, b, c)\<close> and the sum of all cells is the total.
\<close>

theorem rating_matrix_one_hot:
  assumes "0 \<le> a" and "0 \<le> b" and "0 \<le> c"
  shows "\<exists>D. build_matrix (a + b + c) a b c = Inr D \<and>
             shape0 D = nat (a + b + c) \<and> shape1 D = 3 \<and> rectangular D \<and>
             (\<forall>i<nat (a + b + c).
                rows D ! i = (if int i < a then [1, 0, 0]
                              else if int i < a + b then [0, 1, 0] else [0, 0, 1])) \<and>
             (\<forall>r\<in>set (rows D). sum_list r = 1) \<and>
             col_sums D = [of_int a, of_int b, of_int c] \<and>
             total_sum D = of_int (a + b + c)"
proof -
  let ?D = "\<lparr>ncols = 3, rows = one_hot_rows (nat a) (nat b) (nat c)\<rparr>"
  have n: "nat (a + b + c) = nat a + nat b + nat c"
    using assms by simp
  have b: "build_matrix (a + b + c) a b c = Inr ?D"
    using assms by (rule build_matrix_rows)
  have s0: "shape0 ?D = nat (a + b + c)"
    by (simp add: one_hot_shape0 n)
  have s1: "shape1 ?D = 3"
    by (simp add: shape1_def)
  have rect: "rectangular ?D"
    by (auto simp: rectangular_def one_hot_rows_def list_all_iff)
  have nth: "\<forall>i<nat (a + b + c).
                rows ?D ! i = (if int i < a then [1, 0, 0]
                               else if int i < a + b then [0, 1, 0] else [0, 0, 1])"
  proof (intro allI impI)
    fix i assume "i < nat (a + b + c)"
    then have i: "i < nat a + nat b + nat c" by (simp add: n)
    have "(int i < a) = (i < nat a)" "(int i < a + b) = (i < nat a + nat b)"
      using assms by linarith+
    then show "rows ?D ! i = (if int i < a then [1, 0, 0]
                               else if int i < a + b then [0, 1, 0] else [0, 0, 1])"
      using one_hot_nth [OF i] by simp
  qed
  have rs: "\<forall>r\<in>set (rows ?D). sum_list r = 1"
    using one_hot_row_sums by simp
  have cs: "col_sums ?D = [of_int a, of_int b, of_int c]"
    using assms by (simp add: one_hot_col_sums)
  have ts: "total_sum ?D = of_int (a + b + c)"
    using assms by (simp add: one_hot_total_sum)
  from b s0 s1 rect nth rs cs ts show ?thesis by blast
qed

theorem rating_matrix_one_hot_witness:
  "\<exists>D. build_matrix 3 2 1 0 = Inr D \<and> shape0 D = 3 \<and> shape1 D = 3 \<and>
        rows D ! 0 = [1, 0, 0] \<and> rows D ! 1 = [1, 0, 0] \<and> rows D ! 2 = [0, 1, 0] \<and>
        col_sums D = [2, 1, 0] \<and> total_sum D = 3"
proof -
  have h: "(0::int) \<le> 2" "(0::int) \<le> 1" "(0::int) \<le> 0" by simp_all
  obtain D where D: "build_matrix (2 + 1 + 0) 2 1 0 = Inr D" "shape0 D = nat (2 + 1 + 0)"
    "shape1 D = 3"
    "\<forall>i<nat (2 + 1 + 0).
        rows D ! i = (if int i < 2 then [1, 0, 0]
                      else if int i < 2 + 1 then [0, 1, 0] else [0, 0, 1])"
    "col_sums D = [of_int 2, of_int 1, of_int 0]" "total_sum D = of_int (2 + 1 + 0)"
    using rating_matrix_one_hot [OF h] by blast
  from D(4) have "rows D ! 0 = [1, 0, 0]" "rows D ! 1 = [1, 0, 0]" "rows D ! 2 = [0, 1, 0]"
    by simp_all
  with D show ?thesis by simp
qed

subsection \<open>The aggregation\<close>



text \<open>
  C10. When several rows of the table have the same question and the same category
  label, the count is the \<^verbatim>\<open>Total\<close> of the first of them: the table is split at the
  first row \<open>r\<close> with its question and label, and whatever rows follow, the one
  summary of the question has the \<^verbatim>\<open>Total\<close> of \<open>r\<close> as the count of that label.
  The later rows are neither added nor reported.
\<close>

theorem duplicate_rows_first_total_used:
  assumes "\<forall>p\<in>set pre. \<not> (In_Question p = In_Question r \<and>
                             Categorical_Answers p = Categorical_Answers r)"
  shows "\<exists>s. filter (\<lambda>s. Question s = In_Question r)
               (prepare_data_for_fleiss_kappa (pre @ r # post)) = [s] \<and>
             (Categorical_Answers r = ''A'' \<longrightarrow> Category_A s = Total r) \<and>
             (Categorical_Answers r = ''B'' \<longrightarrow> Category_B s = Total r) \<and>
             (Categorical_Answers r = ''C'' \<longrightarrow> Category_C s = Total r)"
proof -
  let ?df = "pre @ r # post"
  let ?q = "In_Question r"
  have "filter (\<lambda>s. Question s = ?q) (prepare_data_for_fleiss_kappa ?df) =
        map (summarise ?df) (filter (\<lambda>x. x = ?q) (unique (map In_Question ?df)))"
    by (simp add: prepare_data_for_fleiss_kappa_def filter_map comp_def summarise_fields(1))
  also have "filter (\<lambda>x. x = ?q) (unique (map In_Question ?df)) = [?q]"
    by (rule filter_eq_distinct) (simp_all add: distinct_unique set_unique)
  finally have one: "filter (\<lambda>s. Question s = ?q) (prepare_data_for_fleiss_kappa ?df) =
      [summarise ?df ?q]"
    by simp
  have "first_labelled_total ?df ?q (Categorical_Answers r) = Total r"
    using find_first_match [of pre "\<lambda>p. In_Question p = ?q \<and>
        Categorical_Answers p = Categorical_Answers r" r post] assms
    by (simp add: first_labelled_total_def)
  then show ?thesis
    using one by (auto simp: summarise_fields)
qed

theorem duplicate_rows_first_total_used_witness:
  "map Category_A
     (filter (\<lambda>s. Question s = ''Q1'')
        (prepare_data_for_fleiss_kappa
           ([\<lparr>In_Question = ''Q1'', Categorical_Answers = ''B'', Total = 2\<rparr>] @
            \<lparr>In_Question = ''Q1'', Categorical_Answers = ''A'', Total = 3\<rparr> #
            [\<lparr>In_Question = ''Q1'', Categorical_Answers = ''A'', Total = 5\<rparr>]))) = [3]"
  using duplicate_rows_first_total_used
    [of "[\<lparr>In_Question = ''Q1'', Categorical_Answers = ''B'', Total = 2\<rparr>]"
        "\<lparr>In_Question = ''Q1'', Categorical_Answers = ''A'', Total = 3\<rparr>"
        "[\<lparr>In_Question = ''Q1'', Categorical_Answers = ''A'', Total = 5\<rparr>]"]
  by auto

end
